theory Spec2Isabelle
  imports Main
begin

section \<open>Exceptions\<close>

text \<open>
  The exceptions this program raises, each with its message. \<open>NotImplementedError\<close> is
  raised by every function of \<^verbatim>\<open>gomoku.py\<close>, \<open>AssertionError\<close> by the test utilities,
  \<open>IndexError\<close> by a list subscript out of range, \<open>UnicodeEncodeError\<close> by \<^verbatim>\<open>print\<close> on
  a standard output whose encoding lacks a character of the text, \<open>OverflowError\<close> by a
  division of integers whose quotient is too large for a float, and \<open>SystemExit\<close>, with
  its exit status, by \<^verbatim>\<open>sys.exit\<close>. All but the last derive from Python's
  \<^verbatim>\<open>Exception\<close>; \<open>SystemExit\<close> derives from \<^verbatim>\<open>BaseException\<close> only, so an
  \<^verbatim>\<open>except Exception\<close> clause does not catch it.
\<close>

datatype exn =
    NotImplementedError string
  | AssertionError string
  | IndexError string
  | UnicodeEncodeError string
  | OverflowError string
  | SystemExit int

fun is_Exception :: "exn \<Rightarrow> bool" where
  "is_Exception (NotImplementedError m) = True"
| "is_Exception (AssertionError m) = True"
| "is_Exception (IndexError m) = True"
| "is_Exception (UnicodeEncodeError m) = True"
| "is_Exception (OverflowError m) = True"
| "is_Exception (SystemExit c) = False"

section \<open>The module gomoku.py\<close>

text \<open>
  The file calls itself a placeholder, to be replaced by an implementation: the body of
  each of its ten functions is the one statement
  \<^verbatim>\<open>raise NotImplementedError("Replace this file with your gomoku.py")\<close>.

  A board is a list of rows, a row a list of cells, a cell a Python string
  (\<^verbatim>\<open>' '\<close>, \<^verbatim>\<open>'b'\<close> or \<^verbatim>\<open>'w'\<close> in the tests). A call either returns a value
  (\<open>Inr\<close>) or raises (\<open>Inl\<close>). The result types are the ones the callers in the test
  files expect; \<open>search_max\<close>, which the specification allows to write to the board while
  it searches, also returns the board as the call leaves it. The parameters \<^verbatim>\<open>size\<close>
  and \<^verbatim>\<open>length\<close> are written \<open>sz\<close> and \<open>len\<close>.
\<close>

type_synonym board = "string list list"

definition make_empty_board :: "int \<Rightarrow> exn + board" where
  "make_empty_board sz = Inl (NotImplementedError ''Replace this file with your gomoku.py'')"

definition put_seq_on_board ::
  "board \<Rightarrow> int \<Rightarrow> int \<Rightarrow> int \<Rightarrow> int \<Rightarrow> int \<Rightarrow> string \<Rightarrow> exn + board" where
  "put_seq_on_board b y x d_y d_x len col =
     Inl (NotImplementedError ''Replace this file with your gomoku.py'')"

definition is_empty :: "board \<Rightarrow> exn + bool" where
  "is_empty b = Inl (NotImplementedError ''Replace this file with your gomoku.py'')"

definition is_bounded ::
  "board \<Rightarrow> int \<Rightarrow> int \<Rightarrow> int \<Rightarrow> int \<Rightarrow> int \<Rightarrow> exn + string" where
  "is_bounded b y_end x_end len d_y d_x =
     Inl (NotImplementedError ''Replace this file with your gomoku.py'')"

definition detect_row ::
  "board \<Rightarrow> string \<Rightarrow> int \<Rightarrow> int \<Rightarrow> int \<Rightarrow> int \<Rightarrow> int \<Rightarrow> exn + (int \<times> int)" where
  "detect_row b col y_start x_start len d_y d_x =
     Inl (NotImplementedError ''Replace this file with your gomoku.py'')"

definition detect_rows :: "board \<Rightarrow> string \<Rightarrow> int \<Rightarrow> exn + (int \<times> int)" where
  "detect_rows b col len = Inl (NotImplementedError ''Replace this file with your gomoku.py'')"

definition score :: "board \<Rightarrow> exn + int" where
  "score b = Inl (NotImplementedError ''Replace this file with your gomoku.py'')"

definition search_max :: "board \<Rightarrow> (exn + (int option \<times> int option)) \<times> board" where
  "search_max b = (Inl (NotImplementedError ''Replace this file with your gomoku.py''), b)"

definition is_win :: "board \<Rightarrow> exn + string" where
  "is_win b = Inl (NotImplementedError ''Replace this file with your gomoku.py'')"

definition print_board :: "board \<Rightarrow> exn + string" where
  "print_board b = Inl (NotImplementedError ''Replace this file with your gomoku.py'')"

section \<open>Python values the tests handle\<close>

text \<open>
  Sequencing of statements: the rest of a block runs only when the statement before it
  did not raise.
\<close>

definition bnd :: "exn + 'a \<Rightarrow> ('a \<Rightarrow> exn + 'b) \<Rightarrow> exn + 'b" where
  "bnd m f = (case m of Inl e \<Rightarrow> Inl e | Inr v \<Rightarrow> f v)"

text \<open>
  List subscripts. A negative index counts from the end; an index out of range raises
  \<open>IndexError\<close>. The tests write \<^verbatim>\<open>b[i][j] = v\<close> and read \<^verbatim>\<open>b[i][j]\<close> on a board
  whose rows are distinct lists (no two rows are the same object).
\<close>

definition list_index :: "'a list \<Rightarrow> int \<Rightarrow> nat option" where
  "list_index xs i =
     (if 0 \<le> i \<and> i < int (length xs) then Some (nat i)
      else if i < 0 \<and> - int (length xs) \<le> i then Some (nat (int (length xs) + i))
      else None)"

definition getitem :: "'a list \<Rightarrow> int \<Rightarrow> exn + 'a" where
  "getitem xs i =
     (case list_index xs i of
        None \<Rightarrow> Inl (IndexError ''list index out of range'')
      | Some k \<Rightarrow> Inr (xs ! k))"

definition setitem :: "'a list \<Rightarrow> int \<Rightarrow> 'a \<Rightarrow> exn + 'a list" where
  "setitem xs i v =
     (case list_index xs i of
        None \<Rightarrow> Inl (IndexError ''list assignment index out of range'')
      | Some k \<Rightarrow> Inr (xs[k := v]))"

definition getcell :: "board \<Rightarrow> int \<Rightarrow> int \<Rightarrow> exn + string" where
  "getcell b i j = bnd (getitem b i) (\<lambda>row. getitem row j)"

definition setcell :: "board \<Rightarrow> int \<Rightarrow> int \<Rightarrow> string \<Rightarrow> exn + board" where
  "setcell b i j v =
     bnd (getitem b i) (\<lambda>row. bnd (setitem row j v) (\<lambda>row'. setitem b i row'))"

text \<open>\<^verbatim>\<open>range(n)\<close> and the \<^verbatim>\<open>for\<close> loop over a list, which stops at the first raise.\<close>

definition py_range :: "int \<Rightarrow> int list" where
  "py_range n = [0..n - 1]"

definition py_range_from :: "int \<Rightarrow> int \<Rightarrow> int list" where
  "py_range_from m n = [m..n - 1]"

fun for_each :: "'a list \<Rightarrow> ('a \<Rightarrow> 's \<Rightarrow> exn + 's) \<Rightarrow> 's \<Rightarrow> exn + 's" where
  "for_each [] body s = Inr s"
| "for_each (x # xs) body s = bnd (body x s) (for_each xs body)"

text \<open>
  What \<^verbatim>\<open>str\<close> gives for the values the assertion messages format: a string is
  itself, an integer is written in decimal, \<^verbatim>\<open>None\<close> by its name, and a pair and a
  list with their components written by \<^verbatim>\<open>repr\<close>. The \<^verbatim>\<open>repr\<close> of a string puts it
  in quotes (double quotes when it holds a single quote and no double quote) and escapes
  the quote, the backslash and the characters that are not printable; a character is read
  as the code point of its number.
\<close>

definition str_str :: "string \<Rightarrow> string" where
  "str_str s = s"

fun digits :: "nat \<Rightarrow> string" where
  "digits n =
     (if n < 10 then [''0123456789'' ! n]
      else digits (n div 10) @ [''0123456789'' ! (n mod 10)])"

definition str_int :: "int \<Rightarrow> string" where
  "str_int i = (if i < 0 then CHR ''-'' # digits (nat (- i)) else digits (nat i))"

definition repr_opt_int :: "int option \<Rightarrow> string" where
  "repr_opt_int v = (case v of None \<Rightarrow> ''None'' | Some i \<Rightarrow> str_int i)"

definition str_pair :: "('a \<Rightarrow> string) \<Rightarrow> 'a \<times> 'a \<Rightarrow> string" where
  "str_pair repr_elem p = ''('' @ repr_elem (fst p) @ '', '' @ repr_elem (snd p) @ '')''"

fun join :: "string \<Rightarrow> string list \<Rightarrow> string" where
  "join sep [] = []"
| "join sep [x] = x"
| "join sep (x # y # ys) = x @ sep @ join sep (y # ys)"

definition str_list :: "('a \<Rightarrow> string) \<Rightarrow> 'a list \<Rightarrow> string" where
  "str_list repr_elem xs = ''['' @ join '', '' (map repr_elem xs) @ '']''"

definition hex2 :: "nat \<Rightarrow> string" where
  "hex2 n = [''0123456789abcdef'' ! (n div 16), ''0123456789abcdef'' ! (n mod 16)]"

definition repr_char :: "char \<Rightarrow> char \<Rightarrow> string" where
  "repr_char quote c =
     (let n = (of_char c :: nat) in
      if c = quote \<or> c = CHR 0x5C then [CHR 0x5C, c]
      else if c = CHR 0x09 then [CHR 0x5C, CHR ''t'']
      else if c = CHR 0x0A then [CHR 0x5C, CHR ''n'']
      else if c = CHR 0x0D then [CHR 0x5C, CHR ''r'']
      else if n < 32 \<or> n = 127 then [CHR 0x5C, CHR ''x''] @ hex2 n
      else if n < 127 then [c]
      else if 161 \<le> n \<and> n \<noteq> 173 then [c]
      else [CHR 0x5C, CHR ''x''] @ hex2 n)"

definition repr_str :: "string \<Rightarrow> string" where
  "repr_str s =
     (let quote = (if CHR 0x27 \<in> set s \<and> CHR 0x22 \<notin> set s then CHR 0x22 else CHR 0x27)
      in [quote] @ concat (map (repr_char quote) s) @ [quote])"

definition str_board :: "board \<Rightarrow> string" where
  "str_board b = str_list (str_list repr_str) b"

definition str_exn :: "exn \<Rightarrow> string" where
  "str_exn e =
     (case e of
        NotImplementedError m \<Rightarrow> m
      | AssertionError m \<Rightarrow> m
      | IndexError m \<Rightarrow> m
      | UnicodeEncodeError m \<Rightarrow> m
      | OverflowError m \<Rightarrow> m
      | SystemExit c \<Rightarrow> str_int c)"

section \<open>The test utilities of run_all_tests.py\<close>

text \<open>\<^verbatim>\<open>msg or default\<close>: the default replaces \<^verbatim>\<open>None\<close> and the empty string.\<close>

definition msg_or :: "string option \<Rightarrow> string \<Rightarrow> string" where
  "msg_or msg dflt = (case msg of None \<Rightarrow> dflt | Some m \<Rightarrow> if m = [] then dflt else m)"

definition assert_true :: "bool \<Rightarrow> string option \<Rightarrow> exn + unit" where
  "assert_true cond msg =
     (if \<not> cond then Inl (AssertionError (msg_or msg ''Assertion failed'')) else Inr ())"

text \<open>
  \<open>assert_equal\<close> formats both values into its default message; the first argument is
  \<^verbatim>\<open>str\<close> at the type of the values compared.
\<close>

definition assert_equal :: "('a \<Rightarrow> string) \<Rightarrow> 'a \<Rightarrow> 'a \<Rightarrow> string option \<Rightarrow> exn + unit" where
  "assert_equal str actual expected msg =
     (if actual \<noteq> expected
      then Inl (AssertionError
                 (msg_or msg (''Expected '' @ str expected @ '', got '' @ str actual)))
      else Inr ())"

subsection \<open>Printing\<close>

text \<open>
  The lines the runner prints hold characters outside ASCII, so a printed text is a list
  of code points; \<open>ustr\<close> reads a string of the model as one. One line stands apart:
  \<^verbatim>\<open>RESULTS: {passed}/{total_tests} tests passed ({pass_rate:.1f}%)\<close>, after the warning
  sign U+26A0 U+FE0F and two spaces, shows the pass rate, a float; the line is kept as
  \<open>Results passed total_tests\<close>, the two integers that determine it.
\<close>

type_synonym ustring = "nat list"

definition ustr :: "string \<Rightarrow> ustring" where
  "ustr s = map of_char s"

datatype line = Text ustring | Results int int

definition pass_line :: "string \<Rightarrow> line" where
  "pass_line name = Text (0x2713 # ustr ('' PASS: '' @ name))"

definition fail_line :: "string \<Rightarrow> line" where
  "fail_line name = Text (0x2717 # ustr ('' FAIL: '' @ name))"

definition reason_line :: "exn \<Rightarrow> line" where
  "reason_line e = Text (ustr ''  '' @ [0x2514, 0x2500] @ ustr ('' '' @ str_exn e))"

definition rule_line :: line where
  "rule_line = Text (ustr (replicate 70 CHR ''=''))"

definition dash_line :: line where
  "dash_line = Text (ustr (replicate 70 CHR ''-''))"

definition blank_line :: line where
  "blank_line = Text []"

definition title_line :: line where
  "title_line = Text (ustr ''GOMOKU COMPREHENSIVE TEST SUITE'')"

definition basic_heading :: line where
  "basic_heading = Text (0x1F539 # ustr '' BASIC TESTS (8 tests)'')"

definition edge_heading :: line where
  "edge_heading = Text (0x1F539 # ustr '' EDGE CASE TESTS (60 tests)'')"

definition success_line :: "int \<Rightarrow> line" where
  "success_line n =
     Text (0x2705 # ustr ('' SUCCESS! All '' @ str_int n @ '' tests PASSED! '') @ [0x1F389])"

definition failed_line :: "int \<Rightarrow> line" where
  "failed_line n = Text (0x274C # ustr ('' '' @ str_int n @ '' test(s) FAILED''))"

text \<open>
  The module's two counters, and the lines written to standard output so far. Standard
  output belongs to the environment: \<open>out l\<close> is \<open>None\<close> when it accepts the line \<open>l\<close>,
  and the exception that \<^verbatim>\<open>print\<close> raises when it does not (a \<open>UnicodeEncodeError\<close>
  when its encoding lacks a character of the line). A line that is refused is not written.
\<close>

record globals =
  failures :: int
  total_tests :: int
  printed :: "line list"

definition initial_globals :: globals where
  "initial_globals = \<lparr>failures = 0, total_tests = 0, printed = []\<rparr>"

type_synonym stream = "line \<Rightarrow> exn option"

definition py_print :: "stream \<Rightarrow> line \<Rightarrow> globals \<Rightarrow> (exn + unit) \<times> globals" where
  "py_print out l g =
     (case out l of
        Some e \<Rightarrow> (Inl e, g)
      | None \<Rightarrow> (Inr (), g\<lparr>printed := printed g @ [l]\<rparr>))"

fun prints :: "stream \<Rightarrow> line list \<Rightarrow> globals \<Rightarrow> (exn + unit) \<times> globals" where
  "prints out [] g = (Inr (), g)"
| "prints out (l # ls) g =
     (case py_print out l g of
        (Inl e, g') \<Rightarrow> (Inl e, g')
      | (Inr u, g') \<Rightarrow> prints out ls g')"

text \<open>Sequencing of statements that read and write the counters and print.\<close>

definition and_then ::
  "(exn + 'a) \<times> globals \<Rightarrow> ('a \<Rightarrow> globals \<Rightarrow> (exn + 'b) \<times> globals) \<Rightarrow> (exn + 'b) \<times> globals" where
  "and_then m f = (case m of (Inl e, g) \<Rightarrow> (Inl e, g) | (Inr v, g) \<Rightarrow> f v g)"

subsection \<open>run_test\<close>

text \<open>
  A test function: its \<^verbatim>\<open>__name__\<close> and what calling it does. \<open>run_test\<close> counts the
  test and calls it inside \<^verbatim>\<open>try\<close>; the print of the PASS line is inside the
  \<^verbatim>\<open>try\<close> as well. \<open>except_Exception\<close> is the handler: an exception that derives from
  \<^verbatim>\<open>Exception\<close>, raised by the test or by the print of the PASS line, is counted as a
  failure and reported in two lines, and an exception raised by either of those prints
  leaves \<open>run_test\<close>; any other exception is not handled and leaves \<open>run_test\<close>. The
  parameter \<^verbatim>\<open>category\<close> is never used and is left out.
\<close>

record test =
  fn_name :: string
  fn_call :: "exn + unit"

definition except_Exception ::
  "stream \<Rightarrow> string \<Rightarrow> exn \<Rightarrow> globals \<Rightarrow> (exn + bool) \<times> globals" where
  "except_Exception out name e g =
     (if is_Exception e
      then and_then (py_print out (fail_line name) (g\<lparr>failures := failures g + 1\<rparr>)) (\<lambda>u g.
           and_then (py_print out (reason_line e) g) (\<lambda>u g.
           (Inr False, g)))
      else (Inl e, g))"

definition run_test :: "stream \<Rightarrow> test \<Rightarrow> globals \<Rightarrow> (exn + bool) \<times> globals" where
  "run_test out fn g =
     (let g1 = g\<lparr>total_tests := total_tests g + 1\<rparr>;
          name = fn_name fn
      in case fn_call fn of
           Inl e \<Rightarrow> except_Exception out name e g1
         | Inr u \<Rightarrow>
             (case py_print out (pass_line name) g1 of
                (Inl e, g2) \<Rightarrow> except_Exception out name e g2
              | (Inr u', g2) \<Rightarrow> (Inr True, g2)))"

subsection \<open>main\<close>

text \<open>
  \<open>main\<close> prints its banner, runs \<^verbatim>\<open>for test in tests: run_test(test)\<close> over its list
  of basic tests and, after a second heading, over its list of edge case tests, prints the
  summary and ends in \<^verbatim>\<open>sys.exit(0 if failures == 0 else 1)\<close>, which raises
  \<open>SystemExit\<close>. \<open>main_on\<close> is that body with the two lists as parameters; \<open>main\<close>, further
  down, is \<open>main_on\<close> at the two lists the file writes.

  Before the summary \<open>main\<close> computes \<^verbatim>\<open>passed / total_tests * 100\<close> when
  \<^verbatim>\<open>total_tests > 0\<close>. The division is Python's true division of integers, which rounds
  the quotient to the nearest float and raises \<open>OverflowError\<close> when the rounded quotient
  does not fit a double, that is when its magnitude is at least \<open>2 ^ 1024 - 2 ^ 970\<close>; the
  multiplication by 100 does not raise.
\<close>

fun run_tests :: "stream \<Rightarrow> test list \<Rightarrow> globals \<Rightarrow> (exn + unit) \<times> globals" where
  "run_tests out [] g = (Inr (), g)"
| "run_tests out (t # ts) g =
     (case run_test out t g of
        (Inl e, g') \<Rightarrow> (Inl e, g')
      | (Inr r, g') \<Rightarrow> run_tests out ts g')"

definition quotient_limit :: int where
  "quotient_limit = 2 ^ 1024 - 2 ^ 970"

definition pass_rate_check :: "int \<Rightarrow> int \<Rightarrow> exn + unit" where
  "pass_rate_check passed tot =
     (if tot > 0 \<and> \<bar>passed\<bar> \<ge> quotient_limit * tot
      then Inl (OverflowError ''integer division result too large for a float'')
      else Inr ())"

definition main_on ::
  "stream \<Rightarrow> test list \<Rightarrow> test list \<Rightarrow> globals \<Rightarrow> (exn + unit) \<times> globals" where
  "main_on out basic edge g =
     and_then (prints out
                 [rule_line, title_line, rule_line, blank_line, basic_heading, dash_line] g)
       (\<lambda>u g.
     and_then (run_tests out basic g) (\<lambda>u g.
     and_then (prints out [blank_line, edge_heading, dash_line] g) (\<lambda>u g.
     and_then (run_tests out edge g) (\<lambda>u g.
     and_then (prints out [blank_line, rule_line] g) (\<lambda>u g.
     (let passed = total_tests g - failures g in
      and_then (pass_rate_check passed (total_tests g), g) (\<lambda>u g.
      and_then (if failures g = 0
                then py_print out (success_line (total_tests g)) g
                else prints out [Results passed (total_tests g), failed_line (failures g)] g)
        (\<lambda>u g.
      and_then (py_print out rule_line g) (\<lambda>u g.
      (Inl (SystemExit (if failures g = 0 then 0 else 1)), g))))))))))"

text \<open>
  What the run of one test leaves behind when standard output accepts its lines, read off
  the test alone: whether it passed, whether what it raised is caught, and the lines
  printed for it. \<open>accepting\<close> is a standard output that accepts every line.
\<close>

definition passes :: "test \<Rightarrow> bool" where
  "passes t = (case fn_call t of Inr u \<Rightarrow> True | Inl e \<Rightarrow> False)"

definition caught :: "test \<Rightarrow> bool" where
  "caught t = (case fn_call t of Inr u \<Rightarrow> True | Inl e \<Rightarrow> is_Exception e)"

definition verdict :: "test \<Rightarrow> line list" where
  "verdict t =
     (case fn_call t of
        Inr u \<Rightarrow> [pass_line (fn_name t)]
      | Inl e \<Rightarrow> [fail_line (fn_name t), reason_line e])"

definition accepting :: stream where
  "accepting l = None"

section \<open>The tests of run_all_tests.py\<close>

text \<open>
  Each test is a function object: its name and its body. A body is the sequence of its
  statements; a call that mutates the board (\<open>put_seq_on_board\<close>, a subscript assignment)
  binds the board anew. All 68 tests of the file follow, in the order the file defines
  them.

  Two more shapes of statement the tests use. \<^verbatim>\<open>x and y\<close> evaluates \<^verbatim>\<open>y\<close> only when
  \<^verbatim>\<open>x\<close> is true. A call of \<open>search_max\<close> hands back its result and the board as the
  call left it, and the test goes on with that board.
\<close>

definition lazy_and :: "exn + bool \<Rightarrow> exn + bool \<Rightarrow> exn + bool" where
  "lazy_and x y = bnd x (\<lambda>a. if a then y else Inr False)"

definition bnd_board :: "(exn + 'a) \<times> board \<Rightarrow> ('a \<Rightarrow> board \<Rightarrow> exn + 'b) \<Rightarrow> exn + 'b" where
  "bnd_board m f = (case m of (Inl e, b) \<Rightarrow> Inl e | (Inr v, b) \<Rightarrow> f v b)"

subsection \<open>Basic tests\<close>

definition test_make_and_is_empty :: test where
  "test_make_and_is_empty =
     \<lparr>fn_name = ''test_make_and_is_empty'', fn_call =
     bnd (make_empty_board 8) (\<lambda>b.
     bnd (is_empty b) (\<lambda>e.
     bnd (assert_true e None) (\<lambda>u.
     bnd (setcell b 0 0 ''b'') (\<lambda>b.
     bnd (is_empty b) (\<lambda>e.
     assert_true (\<not> e) None)))))\<rparr>"

definition test_put_seq_and_detects_vertical_open :: test where
  "test_put_seq_and_detects_vertical_open =
     \<lparr>fn_name = ''test_put_seq_and_detects_vertical_open'', fn_call =
     bnd (make_empty_board 8) (\<lambda>b.
     bnd (put_seq_on_board b 1 5 1 0 3 ''w'') (\<lambda>b.
     bnd (lazy_and (bnd (getcell b 1 5) (\<lambda>c. Inr (c = ''w'')))
                   (bnd (getcell b 3 5) (\<lambda>c. Inr (c = ''w'')))) (\<lambda>both.
     bnd (assert_true both None) (\<lambda>u.
     bnd (detect_rows b ''w'' 3) (\<lambda>(open_count, semi).
     assert_true ((open_count, semi) = (1, 0)) None)))))\<rparr>"

definition test_is_bounded_open_semi_closed :: test where
  "test_is_bounded_open_semi_closed =
     \<lparr>fn_name = ''test_is_bounded_open_semi_closed'', fn_call =
     bnd (make_empty_board 8) (\<lambda>b.
     bnd (put_seq_on_board b 1 5 1 0 3 ''w'') (\<lambda>b.
     bnd (is_bounded b 3 5 3 1 0) (\<lambda>r.
     bnd (assert_true (r = ''OPEN'') None) (\<lambda>u.
     bnd (make_empty_board 8) (\<lambda>b2.
     bnd (put_seq_on_board b2 1 5 1 0 3 ''w'') (\<lambda>b2.
     bnd (setcell b2 0 5 ''b'') (\<lambda>b2.
     bnd (is_bounded b2 3 5 3 1 0) (\<lambda>r2.
     bnd (assert_true (r2 = ''SEMIOPEN'') None) (\<lambda>u.
     bnd (make_empty_board 8) (\<lambda>b3.
     bnd (put_seq_on_board b3 1 5 1 0 3 ''w'') (\<lambda>b3.
     bnd (setcell b3 0 5 ''b'') (\<lambda>b3.
     bnd (setcell b3 4 5 ''b'') (\<lambda>b3.
     bnd (is_bounded b3 3 5 3 1 0) (\<lambda>r3.
     assert_true (r3 = ''CLOSED'') None))))))))))))))\<rparr>"

definition test_detect_row_horizontal_and_diagonal :: test where
  "test_detect_row_horizontal_and_diagonal =
     \<lparr>fn_name = ''test_detect_row_horizontal_and_diagonal'', fn_call =
     bnd (make_empty_board 8) (\<lambda>b.
     bnd (put_seq_on_board b 0 0 0 1 4 ''b'') (\<lambda>b.
     bnd (detect_row b ''b'' 0 0 4 0 1) (\<lambda>(open_count, semi).
     bnd (assert_true ((open_count, semi) = (0, 1)) None) (\<lambda>u.
     bnd (make_empty_board 8) (\<lambda>b2.
     bnd (put_seq_on_board b2 0 4 1 (- 1) 3 ''b'') (\<lambda>b2.
     bnd (detect_rows b2 ''b'' 3) (\<lambda>(oc, sc).
     assert_true ((oc, sc) = (0, 1)) None)))))))\<rparr>"

definition test_score_and_win_conditions :: test where
  "test_score_and_win_conditions =
     \<lparr>fn_name = ''test_score_and_win_conditions'', fn_call =
     bnd (make_empty_board 8) (\<lambda>b.
     bnd (put_seq_on_board b 0 0 1 0 5 ''b'') (\<lambda>b.
     bnd (score b) (\<lambda>s.
     bnd (assert_true (s = 100000) None) (\<lambda>u.
     bnd (is_win b) (\<lambda>w.
     bnd (assert_true (w = ''Black won'') None) (\<lambda>u.
     bnd (make_empty_board 8) (\<lambda>b2.
     bnd (put_seq_on_board b2 2 2 0 1 5 ''w'') (\<lambda>b2.
     bnd (score b2) (\<lambda>s2.
     bnd (assert_true (s2 = - 100000) None) (\<lambda>u.
     bnd (is_win b2) (\<lambda>w2.
     assert_true (w2 = ''White won'') None)))))))))))\<rparr>"

definition test_search_max_picks_winning_move_and_none_on_empty :: test where
  "test_search_max_picks_winning_move_and_none_on_empty =
     \<lparr>fn_name = ''test_search_max_picks_winning_move_and_none_on_empty'', fn_call =
     bnd (make_empty_board 8) (\<lambda>b.
     bnd_board (search_max b) (\<lambda>m b.
     bnd (assert_true (m = (None, None)) None) (\<lambda>u.
     bnd (put_seq_on_board b 0 0 1 0 4 ''b'') (\<lambda>b.
     bnd_board (search_max b) (\<lambda>m b.
     assert_true (m = (Some 4, Some 0)) None)))))\<rparr>"

definition test_print_board_output :: test where
  "test_print_board_output =
     \<lparr>fn_name = ''test_print_board_output'', fn_call =
     bnd (make_empty_board 3) (\<lambda>b.
     bnd (setcell b 0 0 ''b'') (\<lambda>b.
     bnd (setcell b 2 2 ''w'') (\<lambda>b.
     bnd (print_board b) (\<lambda>out.
     bnd (assert_true (CHR ''*'' \<in> set out) None) (\<lambda>u.
     assert_true (CHR ''b'' \<in> set out \<and> CHR ''w'' \<in> set out) None)))))\<rparr>"

text \<open>
  The nested loops of \<^verbatim>\<open>test_continue_playing_and_draw\<close> and
  \<^verbatim>\<open>test_draw_on_full_board_no_winner\<close>, which write \<^verbatim>\<open>'b'\<close> where \<^verbatim>\<open>(i + j) % 2 == 0\<close>
  and \<^verbatim>\<open>'w'\<close> elsewhere. The loops of three later tests are set apart in the same way
  (\<open>fill_all_but_3_3\<close>, \<open>fill_black\<close>, \<open>fill_all_but_two\<close>).
\<close>

definition fill_alternating :: "board \<Rightarrow> exn + board" where
  "fill_alternating b =
     for_each (py_range 8) (\<lambda>i b.
       for_each (py_range 8) (\<lambda>j b.
         setcell b i j (if (i + j) mod 2 = 0 then ''b'' else ''w'')) b) b"

definition test_continue_playing_and_draw :: test where
  "test_continue_playing_and_draw =
     \<lparr>fn_name = ''test_continue_playing_and_draw'', fn_call =
     bnd (make_empty_board 8) (\<lambda>b.
     bnd (setcell b 0 0 ''b'') (\<lambda>b.
     bnd (is_win b) (\<lambda>w.
     bnd (assert_true (w = ''Continue playing'') None) (\<lambda>u.
     bnd (make_empty_board 8) (\<lambda>b2.
     bnd (fill_alternating b2) (\<lambda>b2.
     bnd (is_win b2) (\<lambda>w2.
     assert_true (w2 = ''Draw'') None)))))))\<rparr>"

subsection \<open>Edge case tests: board boundaries\<close>

definition test_sequence_at_top_left_corner :: test where
  "test_sequence_at_top_left_corner =
     \<lparr>fn_name = ''test_sequence_at_top_left_corner'', fn_call =
     bnd (make_empty_board 8) (\<lambda>b.
     bnd (put_seq_on_board b 0 0 0 1 3 ''b'') (\<lambda>b.
     bnd (is_bounded b 0 2 3 0 1) (\<lambda>r.
     bnd (assert_equal str_str r ''SEMIOPEN'' None) (\<lambda>u.
     bnd (make_empty_board 8) (\<lambda>b2.
     bnd (put_seq_on_board b2 0 0 1 0 3 ''w'') (\<lambda>b2.
     bnd (is_bounded b2 2 0 3 1 0) (\<lambda>r2.
     bnd (assert_equal str_str r2 ''SEMIOPEN'' None) (\<lambda>u.
     bnd (make_empty_board 8) (\<lambda>b3.
     bnd (put_seq_on_board b3 0 0 1 1 3 ''b'') (\<lambda>b3.
     bnd (is_bounded b3 2 2 3 1 1) (\<lambda>r3.
     assert_equal str_str r3 ''SEMIOPEN'' None)))))))))))\<rparr>"

definition test_sequence_at_bottom_right_corner :: test where
  "test_sequence_at_bottom_right_corner =
     \<lparr>fn_name = ''test_sequence_at_bottom_right_corner'', fn_call =
     bnd (make_empty_board 8) (\<lambda>b.
     bnd (put_seq_on_board b 7 5 0 1 3 ''b'') (\<lambda>b.
     bnd (is_bounded b 7 7 3 0 1) (\<lambda>r.
     bnd (assert_equal str_str r ''SEMIOPEN'' None) (\<lambda>u.
     bnd (make_empty_board 8) (\<lambda>b2.
     bnd (put_seq_on_board b2 5 7 1 0 3 ''w'') (\<lambda>b2.
     bnd (is_bounded b2 7 7 3 1 0) (\<lambda>r2.
     assert_equal str_str r2 ''SEMIOPEN'' None)))))))\<rparr>"

definition test_sequence_at_all_four_corners :: test where
  "test_sequence_at_all_four_corners =
     \<lparr>fn_name = ''test_sequence_at_all_four_corners'', fn_call =
     bnd (make_empty_board 5) (\<lambda>b.
     bnd (setcell b 0 0 ''b'') (\<lambda>b.
     bnd (setcell b 0 4 ''b'') (\<lambda>b.
     bnd (setcell b 4 0 ''b'') (\<lambda>b.
     bnd (setcell b 4 4 ''b'') (\<lambda>b.
     bnd (detect_rows b ''b'' 2) (\<lambda>(open_c, semi_c).
     assert_equal (str_pair str_int) (open_c, semi_c) (0, 0) None))))))\<rparr>"

definition test_sequence_along_top_edge :: test where
  "test_sequence_along_top_edge =
     \<lparr>fn_name = ''test_sequence_along_top_edge'', fn_call =
     bnd (make_empty_board 8) (\<lambda>b.
     bnd (put_seq_on_board b 0 2 0 1 4 ''b'') (\<lambda>b.
     bnd (is_bounded b 0 5 4 0 1) (\<lambda>r.
     assert_equal str_str r ''OPEN'' None)))\<rparr>"

definition test_sequence_along_left_edge :: test where
  "test_sequence_along_left_edge =
     \<lparr>fn_name = ''test_sequence_along_left_edge'', fn_call =
     bnd (make_empty_board 8) (\<lambda>b.
     bnd (put_seq_on_board b 2 0 1 0 4 ''w'') (\<lambda>b.
     bnd (is_bounded b 5 0 4 1 0) (\<lambda>r.
     assert_equal str_str r ''OPEN'' None)))\<rparr>"

definition test_sequence_along_bottom_edge :: test where
  "test_sequence_along_bottom_edge =
     \<lparr>fn_name = ''test_sequence_along_bottom_edge'', fn_call =
     bnd (make_empty_board 8) (\<lambda>b.
     bnd (put_seq_on_board b 7 2 0 1 4 ''b'') (\<lambda>b.
     bnd (is_bounded b 7 5 4 0 1) (\<lambda>r.
     assert_equal str_str r ''OPEN'' None)))\<rparr>"

definition test_sequence_along_right_edge :: test where
  "test_sequence_along_right_edge =
     \<lparr>fn_name = ''test_sequence_along_right_edge'', fn_call =
     bnd (make_empty_board 8) (\<lambda>b.
     bnd (put_seq_on_board b 2 7 1 0 4 ''w'') (\<lambda>b.
     bnd (is_bounded b 5 7 4 1 0) (\<lambda>r.
     assert_equal str_str r ''OPEN'' None)))\<rparr>"

definition test_diagonal_from_top_edge_to_right_edge :: test where
  "test_diagonal_from_top_edge_to_right_edge =
     \<lparr>fn_name = ''test_diagonal_from_top_edge_to_right_edge'', fn_call =
     bnd (make_empty_board 8) (\<lambda>b.
     bnd (put_seq_on_board b 0 5 1 1 3 ''b'') (\<lambda>b.
     bnd (is_bounded b 2 7 3 1 1) (\<lambda>r.
     assert_equal str_str r ''CLOSED'' None)))\<rparr>"

definition test_diagonal_from_left_edge_to_bottom_edge :: test where
  "test_diagonal_from_left_edge_to_bottom_edge =
     \<lparr>fn_name = ''test_diagonal_from_left_edge_to_bottom_edge'', fn_call =
     bnd (make_empty_board 8) (\<lambda>b.
     bnd (put_seq_on_board b 5 0 1 1 3 ''w'') (\<lambda>b.
     bnd (is_bounded b 7 2 3 1 1) (\<lambda>r.
     assert_equal str_str r ''CLOSED'' None)))\<rparr>"

subsection \<open>Edge case tests: sequence detection\<close>

definition test_single_stone_no_sequence :: test where
  "test_single_stone_no_sequence =
     \<lparr>fn_name = ''test_single_stone_no_sequence'', fn_call =
     bnd (make_empty_board 8) (\<lambda>b.
     bnd (setcell b 3 3 ''b'') (\<lambda>b.
     for_each (py_range_from 2 6) (\<lambda>len u.
       bnd (detect_rows b ''b'' len) (\<lambda>(open_c, semi_c).
       assert_equal (str_pair str_int) (open_c, semi_c) (0, 0)
         (Some (''Single stone detected as length '' @ str_int len)))) ()))\<rparr>"

definition test_two_stones_not_adjacent :: test where
  "test_two_stones_not_adjacent =
     \<lparr>fn_name = ''test_two_stones_not_adjacent'', fn_call =
     bnd (make_empty_board 8) (\<lambda>b.
     bnd (setcell b 0 0 ''b'') (\<lambda>b.
     bnd (setcell b 0 2 ''b'') (\<lambda>b.
     bnd (detect_rows b ''b'' 2) (\<lambda>(open_c, semi_c).
     assert_equal (str_pair str_int) (open_c, semi_c) (0, 0) None))))\<rparr>"

definition test_exactly_five_in_a_row :: test where
  "test_exactly_five_in_a_row =
     \<lparr>fn_name = ''test_exactly_five_in_a_row'', fn_call =
     bnd (make_empty_board 8) (\<lambda>b.
     bnd (put_seq_on_board b 3 1 0 1 5 ''b'') (\<lambda>b.
     bnd (detect_rows b ''b'' 5) (\<lambda>(open_c, semi_c).
     bnd (assert_equal (str_pair str_int) (open_c, semi_c) (1, 0) None) (\<lambda>u.
     bnd (is_win b) (\<lambda>w.
     assert_equal str_str w ''Black won'' None)))))\<rparr>"

definition test_more_than_five_in_a_row :: test where
  "test_more_than_five_in_a_row =
     \<lparr>fn_name = ''test_more_than_five_in_a_row'', fn_call =
     bnd (make_empty_board 8) (\<lambda>b.
     bnd (put_seq_on_board b 3 0 0 1 7 ''b'') (\<lambda>b.
     bnd (is_win b) (\<lambda>w.
     assert_equal str_str w ''Black won''
       (Some ''7 stones in a row should be detected as a win''))))\<rparr>"

definition test_overlapping_sequences :: test where
  "test_overlapping_sequences =
     \<lparr>fn_name = ''test_overlapping_sequences'', fn_call =
     bnd (make_empty_board 8) (\<lambda>b.
     bnd (put_seq_on_board b 3 1 0 1 5 ''b'') (\<lambda>b.
     bnd (put_seq_on_board b 1 3 1 0 5 ''w'') (\<lambda>b.
     bnd (is_win b) (\<lambda>result.
     assert_true (result \<in> set [''Black won'', ''White won''])
       (Some (''Should detect a winner with crossing sequences, got '' @ result))))))\<rparr>"

definition test_parallel_sequences :: test where
  "test_parallel_sequences =
     \<lparr>fn_name = ''test_parallel_sequences'', fn_call =
     bnd (make_empty_board 8) (\<lambda>b.
     bnd (put_seq_on_board b 0 1 0 1 4 ''b'') (\<lambda>b.
     bnd (put_seq_on_board b 1 1 0 1 4 ''b'') (\<lambda>b.
     bnd (put_seq_on_board b 2 1 0 1 4 ''b'') (\<lambda>b.
     bnd (detect_rows b ''b'' 4) (\<lambda>(open_c, semi_c).
     assert_true (open_c + semi_c \<ge> 3)
       (Some ''Should detect all 3 parallel sequences''))))))\<rparr>"

definition test_blocked_sequence_both_ends :: test where
  "test_blocked_sequence_both_ends =
     \<lparr>fn_name = ''test_blocked_sequence_both_ends'', fn_call =
     bnd (make_empty_board 8) (\<lambda>b.
     bnd (setcell b 3 2 ''w'') (\<lambda>b.
     bnd (put_seq_on_board b 3 3 0 1 3 ''b'') (\<lambda>b.
     bnd (setcell b 3 6 ''w'') (\<lambda>b.
     bnd (is_bounded b 3 5 3 0 1) (\<lambda>r.
     assert_equal str_str r ''CLOSED'' None)))))\<rparr>"

definition test_blocked_sequence_one_end :: test where
  "test_blocked_sequence_one_end =
     \<lparr>fn_name = ''test_blocked_sequence_one_end'', fn_call =
     bnd (make_empty_board 8) (\<lambda>b.
     bnd (setcell b 3 2 ''w'') (\<lambda>b.
     bnd (put_seq_on_board b 3 3 0 1 3 ''b'') (\<lambda>b.
     bnd (is_bounded b 3 5 3 0 1) (\<lambda>r.
     assert_equal str_str r ''SEMIOPEN'' None))))\<rparr>"

definition test_blocked_by_same_color :: test where
  "test_blocked_by_same_color =
     \<lparr>fn_name = ''test_blocked_by_same_color'', fn_call =
     bnd (make_empty_board 8) (\<lambda>b.
     bnd (put_seq_on_board b 3 2 0 1 3 ''b'') (\<lambda>b.
     bnd (setcell b 3 5 ''b'') (\<lambda>b.
     bnd (detect_rows b ''b'' 3) (\<lambda>(open_3, semi_3).
     bnd (detect_rows b ''b'' 4) (\<lambda>(open_4, semi_4).
     assert_equal (str_pair str_int) (open_3, semi_3) (0, 0)
       (Some ''Should not detect 3-length when it's part of 4''))))))\<rparr>"

definition test_diagonal_negative_slope :: test where
  "test_diagonal_negative_slope =
     \<lparr>fn_name = ''test_diagonal_negative_slope'', fn_call =
     bnd (make_empty_board 8) (\<lambda>b.
     bnd (put_seq_on_board b 1 6 1 (- 1) 4 ''b'') (\<lambda>b.
     bnd (getcell b 1 6) (\<lambda>c.
     bnd (assert_equal str_str c ''b'' None) (\<lambda>u.
     bnd (getcell b 4 3) (\<lambda>c.
     bnd (assert_equal str_str c ''b'' None) (\<lambda>u.
     bnd (detect_rows b ''b'' 4) (\<lambda>(open_c, semi_c).
     assert_true (open_c + semi_c \<ge> 1) (Some ''Should detect diagonal sequence''))))))))\<rparr>"

definition test_all_four_directions :: test where
  "test_all_four_directions =
     \<lparr>fn_name = ''test_all_four_directions'', fn_call =
     bnd (make_empty_board 8) (\<lambda>b.
     bnd (put_seq_on_board b 3 1 0 1 4 ''b'') (\<lambda>b.
     bnd (put_seq_on_board b 1 5 1 0 4 ''w'') (\<lambda>b.
     bnd (put_seq_on_board b 4 0 1 1 4 ''b'') (\<lambda>b.
     bnd (put_seq_on_board b 1 7 1 (- 1) 4 ''w'') (\<lambda>b.
     bnd (detect_rows b ''b'' 4) (\<lambda>(open_b, semi_b).
     bnd (detect_rows b ''w'' 4) (\<lambda>(open_w, semi_w).
     bnd (assert_true (open_b + semi_b \<ge> 2) (Some ''Should detect black sequences'')) (\<lambda>u.
     assert_true (open_w + semi_w \<ge> 2) (Some ''Should detect white sequences'')))))))))\<rparr>"

subsection \<open>Edge case tests: win detection\<close>

definition test_win_with_five_horizontal :: test where
  "test_win_with_five_horizontal =
     \<lparr>fn_name = ''test_win_with_five_horizontal'', fn_call =
     bnd (make_empty_board 8) (\<lambda>b.
     bnd (put_seq_on_board b 3 1 0 1 5 ''b'') (\<lambda>b.
     bnd (is_win b) (\<lambda>w.
     assert_equal str_str w ''Black won'' None)))\<rparr>"

definition test_win_with_five_vertical :: test where
  "test_win_with_five_vertical =
     \<lparr>fn_name = ''test_win_with_five_vertical'', fn_call =
     bnd (make_empty_board 8) (\<lambda>b.
     bnd (put_seq_on_board b 1 3 1 0 5 ''w'') (\<lambda>b.
     bnd (is_win b) (\<lambda>w.
     assert_equal str_str w ''White won'' None)))\<rparr>"

definition test_win_with_five_diagonal_positive :: test where
  "test_win_with_five_diagonal_positive =
     \<lparr>fn_name = ''test_win_with_five_diagonal_positive'', fn_call =
     bnd (make_empty_board 8) (\<lambda>b.
     bnd (put_seq_on_board b 1 1 1 1 5 ''b'') (\<lambda>b.
     bnd (is_win b) (\<lambda>w.
     assert_equal str_str w ''Black won'' None)))\<rparr>"

definition test_win_with_five_diagonal_negative :: test where
  "test_win_with_five_diagonal_negative =
     \<lparr>fn_name = ''test_win_with_five_diagonal_negative'', fn_call =
     bnd (make_empty_board 8) (\<lambda>b.
     bnd (put_seq_on_board b 1 6 1 (- 1) 5 ''w'') (\<lambda>b.
     bnd (is_win b) (\<lambda>w.
     assert_equal str_str w ''White won'' None)))\<rparr>"

definition test_no_win_with_four :: test where
  "test_no_win_with_four =
     \<lparr>fn_name = ''test_no_win_with_four'', fn_call =
     bnd (make_empty_board 8) (\<lambda>b.
     bnd (put_seq_on_board b 3 2 0 1 4 ''b'') (\<lambda>b.
     bnd (is_win b) (\<lambda>w.
     assert_equal str_str w ''Continue playing'' None)))\<rparr>"

definition test_draw_on_full_board_no_winner :: test where
  "test_draw_on_full_board_no_winner =
     \<lparr>fn_name = ''test_draw_on_full_board_no_winner'', fn_call =
     bnd (make_empty_board 8) (\<lambda>b.
     bnd (fill_alternating b) (\<lambda>b.
     bnd (is_win b) (\<lambda>w.
     assert_equal str_str w ''Draw'' None)))\<rparr>"

definition test_continue_playing_on_empty_board :: test where
  "test_continue_playing_on_empty_board =
     \<lparr>fn_name = ''test_continue_playing_on_empty_board'', fn_call =
     bnd (make_empty_board 8) (\<lambda>b.
     bnd (is_win b) (\<lambda>w.
     assert_equal str_str w ''Continue playing'' None))\<rparr>"

definition test_continue_playing_with_moves_but_no_five :: test where
  "test_continue_playing_with_moves_but_no_five =
     \<lparr>fn_name = ''test_continue_playing_with_moves_but_no_five'', fn_call =
     bnd (make_empty_board 8) (\<lambda>b.
     bnd (setcell b 0 0 ''b'') (\<lambda>b.
     bnd (setcell b 0 1 ''w'') (\<lambda>b.
     bnd (setcell b 1 0 ''b'') (\<lambda>b.
     bnd (setcell b 1 1 ''w'') (\<lambda>b.
     bnd (is_win b) (\<lambda>w.
     assert_equal str_str w ''Continue playing'' None))))))\<rparr>"

definition test_both_players_have_five_simultaneously :: test where
  "test_both_players_have_five_simultaneously =
     \<lparr>fn_name = ''test_both_players_have_five_simultaneously'', fn_call =
     bnd (make_empty_board 8) (\<lambda>b.
     bnd (put_seq_on_board b 0 0 0 1 5 ''b'') (\<lambda>b.
     bnd (put_seq_on_board b 1 0 0 1 5 ''w'') (\<lambda>b.
     bnd (is_win b) (\<lambda>result.
     assert_true (result \<in> set [''Black won'', ''White won''])
       (Some (''Should detect a winner, got '' @ result))))))\<rparr>"

subsection \<open>Edge case tests: scoring\<close>

definition test_score_empty_board :: test where
  "test_score_empty_board =
     \<lparr>fn_name = ''test_score_empty_board'', fn_call =
     bnd (make_empty_board 8) (\<lambda>b.
     bnd (score b) (\<lambda>s.
     assert_equal str_int s 0 (Some ''Empty board should have score 0'')))\<rparr>"

definition test_score_single_stone :: test where
  "test_score_single_stone =
     \<lparr>fn_name = ''test_score_single_stone'', fn_call =
     bnd (make_empty_board 8) (\<lambda>b.
     bnd (setcell b 3 3 ''b'') (\<lambda>b.
     bnd (score b) (\<lambda>s.
     assert_true (- 1000 < s \<and> s < 1000)
       (Some (''Single stone should have small score, got '' @ str_int s)))))\<rparr>"

definition test_score_black_winning :: test where
  "test_score_black_winning =
     \<lparr>fn_name = ''test_score_black_winning'', fn_call =
     bnd (make_empty_board 8) (\<lambda>b.
     bnd (put_seq_on_board b 3 1 0 1 5 ''b'') (\<lambda>b.
     bnd (score b) (\<lambda>s.
     assert_equal str_int s 100000 None)))\<rparr>"

definition test_score_white_winning :: test where
  "test_score_white_winning =
     \<lparr>fn_name = ''test_score_white_winning'', fn_call =
     bnd (make_empty_board 8) (\<lambda>b.
     bnd (put_seq_on_board b 3 1 0 1 5 ''w'') (\<lambda>b.
     bnd (score b) (\<lambda>s.
     assert_equal str_int s (- 100000) None)))\<rparr>"

definition test_score_black_open_four :: test where
  "test_score_black_open_four =
     \<lparr>fn_name = ''test_score_black_open_four'', fn_call =
     bnd (make_empty_board 8) (\<lambda>b.
     bnd (put_seq_on_board b 3 2 0 1 4 ''b'') (\<lambda>b.
     bnd (score b) (\<lambda>s.
     assert_true (s \<ge> 500)
       (Some (''Black open 4 should score >= 500, got '' @ str_int s)))))\<rparr>"

definition test_score_white_open_four :: test where
  "test_score_white_open_four =
     \<lparr>fn_name = ''test_score_white_open_four'', fn_call =
     bnd (make_empty_board 8) (\<lambda>b.
     bnd (put_seq_on_board b 3 2 0 1 4 ''w'') (\<lambda>b.
     bnd (score b) (\<lambda>s.
     assert_true (s \<le> - 10000)
       (Some (''White open 4 should score <= -10000, got '' @ str_int s)))))\<rparr>"

definition test_score_blocking_more_valuable :: test where
  "test_score_blocking_more_valuable =
     \<lparr>fn_name = ''test_score_blocking_more_valuable'', fn_call =
     bnd (make_empty_board 8) (\<lambda>b.
     bnd (put_seq_on_board b 3 2 0 1 4 ''w'') (\<lambda>b.
     bnd (score b) (\<lambda>s.
     assert_true (s \<le> - 10000)
       (Some (''White threat should score <= -10000, got '' @ str_int s)))))\<rparr>"

definition test_score_multiple_open_threes :: test where
  "test_score_multiple_open_threes =
     \<lparr>fn_name = ''test_score_multiple_open_threes'', fn_call =
     bnd (make_empty_board 8) (\<lambda>b.
     bnd (put_seq_on_board b 0 1 0 1 3 ''b'') (\<lambda>b.
     bnd (put_seq_on_board b 1 1 0 1 3 ''b'') (\<lambda>b.
     bnd (score b) (\<lambda>s.
     assert_true (s > 50)
       (Some (''Multiple open 3s should have positive score, got '' @ str_int s))))))\<rparr>"

definition test_score_semi_open_less_than_open :: test where
  "test_score_semi_open_less_than_open =
     \<lparr>fn_name = ''test_score_semi_open_less_than_open'', fn_call =
     bnd (make_empty_board 8) (\<lambda>b1.
     bnd (put_seq_on_board b1 3 2 0 1 3 ''b'') (\<lambda>b1.
     bnd (score b1) (\<lambda>score_open.
     bnd (make_empty_board 8) (\<lambda>b2.
     bnd (put_seq_on_board b2 3 2 0 1 3 ''b'') (\<lambda>b2.
     bnd (setcell b2 3 1 ''w'') (\<lambda>b2.
     bnd (score b2) (\<lambda>score_semi.
     assert_true (score_open > score_semi)
       (Some ''Open sequence should score higher than semi-open''))))))))\<rparr>"

subsection \<open>Edge case tests: search_max\<close>

definition test_search_max_empty_board :: test where
  "test_search_max_empty_board =
     \<lparr>fn_name = ''test_search_max_empty_board'', fn_call =
     bnd (make_empty_board 8) (\<lambda>b.
     bnd_board (search_max b) (\<lambda>m b.
     assert_equal (str_pair repr_opt_int) m (None, None) None))\<rparr>"

definition fill_all_but_3_3 :: "board \<Rightarrow> exn + board" where
  "fill_all_but_3_3 b =
     for_each (py_range 8) (\<lambda>i b.
       for_each (py_range 8) (\<lambda>j b.
         if \<not> (i = 3 \<and> j = 3)
         then setcell b i j (if (i + j) mod 2 = 0 then ''b'' else ''w'')
         else Inr b) b) b"

definition test_search_max_one_empty_cell :: test where
  "test_search_max_one_empty_cell =
     \<lparr>fn_name = ''test_search_max_one_empty_cell'', fn_call =
     bnd (make_empty_board 8) (\<lambda>b.
     bnd (fill_all_but_3_3 b) (\<lambda>b.
     bnd_board (search_max b) (\<lambda>(y, x) b.
     assert_equal (str_pair repr_opt_int) (y, x) (Some 3, Some 3)
       (Some (''With only one empty cell, should return (3,3), got (''
              @ repr_opt_int y @ '','' @ repr_opt_int x @ '')'')))))\<rparr>"

definition test_search_max_blocks_opponent_win :: test where
  "test_search_max_blocks_opponent_win =
     \<lparr>fn_name = ''test_search_max_blocks_opponent_win'', fn_call =
     bnd (make_empty_board 8) (\<lambda>b.
     bnd (put_seq_on_board b 3 1 0 1 4 ''w'') (\<lambda>b.
     bnd_board (search_max b) (\<lambda>(y, x) b.
     assert_true ((y, x) \<in> set [(Some 3, Some 0), (Some 3, Some 5)])
       (Some (''Should block white's winning threat at (3,0) or (3,5), got (''
              @ repr_opt_int y @ '','' @ repr_opt_int x @ '')'')))))\<rparr>"

definition test_search_max_takes_winning_move :: test where
  "test_search_max_takes_winning_move =
     \<lparr>fn_name = ''test_search_max_takes_winning_move'', fn_call =
     bnd (make_empty_board 8) (\<lambda>b.
     bnd (put_seq_on_board b 3 1 0 1 4 ''b'') (\<lambda>b.
     bnd_board (search_max b) (\<lambda>(y, x) b.
     assert_true ((y, x) \<in> set [(Some 3, Some 0), (Some 3, Some 5)])
       (Some (''Should win at (3,0) or (3,5), got (''
              @ repr_opt_int y @ '','' @ repr_opt_int x @ '')'')))))\<rparr>"

definition test_search_max_prefers_winning_over_blocking :: test where
  "test_search_max_prefers_winning_over_blocking =
     \<lparr>fn_name = ''test_search_max_prefers_winning_over_blocking'', fn_call =
     bnd (make_empty_board 8) (\<lambda>b.
     bnd (put_seq_on_board b 0 1 0 1 4 ''b'') (\<lambda>b.
     bnd (put_seq_on_board b 2 1 0 1 3 ''w'') (\<lambda>b.
     bnd_board (search_max b) (\<lambda>(y, x) b.
     assert_true ((y, x) \<in> set [(Some 0, Some 0), (Some 0, Some 5)])
       (Some (''Should take winning move at (0,0) or (0,5), got (''
              @ repr_opt_int y @ '','' @ repr_opt_int x @ '')''))))))\<rparr>"

definition fill_black :: "board \<Rightarrow> exn + board" where
  "fill_black b =
     for_each (py_range 8) (\<lambda>i b.
       for_each (py_range 8) (\<lambda>j b. setcell b i j ''b'') b) b"

definition test_search_max_full_board :: test where
  "test_search_max_full_board =
     \<lparr>fn_name = ''test_search_max_full_board'', fn_call =
     bnd (make_empty_board 8) (\<lambda>b.
     bnd (fill_black b) (\<lambda>b.
     bnd_board (search_max b) (\<lambda>m b.
     assert_equal (str_pair repr_opt_int) m (None, None) None)))\<rparr>"

subsection \<open>Edge case tests: detect_row\<close>

definition test_detect_row_entire_row_filled :: test where
  "test_detect_row_entire_row_filled =
     \<lparr>fn_name = ''test_detect_row_entire_row_filled'', fn_call =
     bnd (make_empty_board 8) (\<lambda>b.
     bnd (put_seq_on_board b 0 0 0 1 8 ''b'') (\<lambda>b.
     bnd (detect_rows b ''b'' 5) (\<lambda>(open_all, semi_all).
     assert_true (open_all + semi_all \<ge> 1)
       (Some ''8 stones in a row must contain at least one 5-sequence''))))\<rparr>"

definition test_detect_row_alternating_colors :: test where
  "test_detect_row_alternating_colors =
     \<lparr>fn_name = ''test_detect_row_alternating_colors'', fn_call =
     bnd (make_empty_board 8) (\<lambda>b.
     bnd (for_each (py_range 8)
            (\<lambda>i b. setcell b 0 i (if i mod 2 = 0 then ''b'' else ''w'')) b) (\<lambda>b.
     bnd (detect_row b ''b'' 0 0 2 0 1) (\<lambda>(open_b, semi_b).
     bnd (detect_row b ''w'' 0 0 2 0 1) (\<lambda>(open_w, semi_w).
     bnd (assert_equal (str_pair str_int) (open_b, semi_b) (0, 0) None) (\<lambda>u.
     assert_equal (str_pair str_int) (open_w, semi_w) (0, 0) None)))))\<rparr>"

definition test_detect_row_with_gaps :: test where
  "test_detect_row_with_gaps =
     \<lparr>fn_name = ''test_detect_row_with_gaps'', fn_call =
     bnd (make_empty_board 12) (\<lambda>b.
     bnd (put_seq_on_board b 0 0 0 1 3 ''b'') (\<lambda>b.
     bnd (put_seq_on_board b 0 4 0 1 3 ''b'') (\<lambda>b.
     bnd (put_seq_on_board b 0 8 0 1 3 ''b'') (\<lambda>b.
     bnd (detect_row b ''b'' 0 0 3 0 1) (\<lambda>(open_c, semi_c).
     assert_true (open_c + semi_c \<ge> 3)
       (Some (''Should detect 3 sequences, got '' @ str_int open_c @ '' open and ''
              @ str_int semi_c @ '' semi'')))))))\<rparr>"

definition test_detect_row_starts_mid_sequence :: test where
  "test_detect_row_starts_mid_sequence =
     \<lparr>fn_name = ''test_detect_row_starts_mid_sequence'', fn_call =
     bnd (make_empty_board 8) (\<lambda>b.
     bnd (put_seq_on_board b 2 0 0 1 5 ''b'') (\<lambda>b.
     bnd (detect_row b ''b'' 2 2 5 0 1) (\<lambda>(open_c, semi_c).
     assert_true (open_c + semi_c \<ge> 0) (Some ''Should handle starting mid-sequence''))))\<rparr>"

subsection \<open>Edge case tests: is_bounded\<close>

definition test_is_bounded_length_one :: test where
  "test_is_bounded_length_one =
     \<lparr>fn_name = ''test_is_bounded_length_one'', fn_call =
     bnd (make_empty_board 8) (\<lambda>b.
     bnd (setcell b 3 3 ''b'') (\<lambda>b.
     bnd (is_bounded b 3 3 1 0 1) (\<lambda>r.
     assert_equal str_str r ''OPEN'' None)))\<rparr>"

definition test_is_bounded_at_exact_board_boundary :: test where
  "test_is_bounded_at_exact_board_boundary =
     \<lparr>fn_name = ''test_is_bounded_at_exact_board_boundary'', fn_call =
     bnd (make_empty_board 8) (\<lambda>b.
     bnd (put_seq_on_board b 0 0 0 1 3 ''b'') (\<lambda>b.
     bnd (is_bounded b 0 2 3 0 1) (\<lambda>result.
     assert_true (result \<in> set [''SEMIOPEN'', ''CLOSED''])
       (Some (''Boundary sequence should be SEMIOPEN or CLOSED, got '' @ result)))))\<rparr>"

definition test_is_bounded_surrounded_by_empty :: test where
  "test_is_bounded_surrounded_by_empty =
     \<lparr>fn_name = ''test_is_bounded_surrounded_by_empty'', fn_call =
     bnd (make_empty_board 8) (\<lambda>b.
     bnd (put_seq_on_board b 3 3 0 1 3 ''b'') (\<lambda>b.
     bnd (is_bounded b 3 5 3 0 1) (\<lambda>r.
     assert_equal str_str r ''OPEN'' None)))\<rparr>"

definition test_is_bounded_surrounded_by_opponent :: test where
  "test_is_bounded_surrounded_by_opponent =
     \<lparr>fn_name = ''test_is_bounded_surrounded_by_opponent'', fn_call =
     bnd (make_empty_board 8) (\<lambda>b.
     bnd (setcell b 3 2 ''w'') (\<lambda>b.
     bnd (put_seq_on_board b 3 3 0 1 3 ''b'') (\<lambda>b.
     bnd (setcell b 3 6 ''w'') (\<lambda>b.
     bnd (is_bounded b 3 5 3 0 1) (\<lambda>r.
     assert_equal str_str r ''CLOSED'' None)))))\<rparr>"

subsection \<open>Edge case tests: put_seq_on_board\<close>

definition test_put_seq_length_zero :: test where
  "test_put_seq_length_zero =
     \<lparr>fn_name = ''test_put_seq_length_zero'', fn_call =
     bnd (make_empty_board 8) (\<lambda>b.
     (let original = map (\<lambda>row. row) b in
      bnd (put_seq_on_board b 3 3 0 1 0 ''b'') (\<lambda>b.
      assert_equal str_board b original None)))\<rparr>"

definition test_put_seq_length_one :: test where
  "test_put_seq_length_one =
     \<lparr>fn_name = ''test_put_seq_length_one'', fn_call =
     bnd (make_empty_board 8) (\<lambda>b.
     bnd (put_seq_on_board b 3 3 0 1 1 ''b'') (\<lambda>b.
     bnd (getcell b 3 3) (\<lambda>c.
     bnd (assert_equal str_str c ''b'' None) (\<lambda>u.
     (let count = int (length (filter (\<lambda>cell. cell \<noteq> '' '') (concat b))) in
      assert_equal str_int count 1 None)))))\<rparr>"

definition test_put_seq_overwrites_existing :: test where
  "test_put_seq_overwrites_existing =
     \<lparr>fn_name = ''test_put_seq_overwrites_existing'', fn_call =
     bnd (make_empty_board 8) (\<lambda>b.
     bnd (put_seq_on_board b 3 3 0 1 3 ''b'') (\<lambda>b.
     bnd (put_seq_on_board b 3 3 0 1 3 ''w'') (\<lambda>b.
     bnd (getcell b 3 3) (\<lambda>c.
     bnd (assert_equal str_str c ''w'' None) (\<lambda>u.
     bnd (getcell b 3 4) (\<lambda>c.
     bnd (assert_equal str_str c ''w'' None) (\<lambda>u.
     bnd (getcell b 3 5) (\<lambda>c.
     assert_equal str_str c ''w'' None))))))))\<rparr>"

subsection \<open>Edge case tests: complex game scenarios\<close>

definition test_complex_mid_game_position :: test where
  "test_complex_mid_game_position =
     \<lparr>fn_name = ''test_complex_mid_game_position'', fn_call =
     bnd (make_empty_board 8) (\<lambda>b.
     bnd (setcell b 4 4 ''b'') (\<lambda>b.
     bnd (setcell b 4 5 ''b'') (\<lambda>b.
     bnd (setcell b 5 4 ''b'') (\<lambda>b.
     bnd (setcell b 3 3 ''b'') (\<lambda>b.
     bnd (setcell b 4 3 ''w'') (\<lambda>b.
     bnd (setcell b 5 5 ''w'') (\<lambda>b.
     bnd (setcell b 6 4 ''w'') (\<lambda>b.
     bnd (is_win b) (\<lambda>w.
     bnd (assert_equal str_str w ''Continue playing'' None) (\<lambda>u.
     bnd (score b) (\<lambda>s.
     assert_true (s \<noteq> 0) (Some ''Mid-game should have non-zero score''))))))))))))\<rparr>"

definition test_capture_pattern :: test where
  "test_capture_pattern =
     \<lparr>fn_name = ''test_capture_pattern'', fn_call =
     bnd (make_empty_board 8) (\<lambda>b.
     bnd (setcell b 3 2 ''w'') (\<lambda>b.
     bnd (setcell b 3 3 ''b'') (\<lambda>b.
     bnd (setcell b 3 4 ''b'') (\<lambda>b.
     bnd (setcell b 3 5 ''w'') (\<lambda>b.
     bnd (detect_rows b ''b'' 2) (\<lambda>(open_c, semi_c).
     assert_equal (str_pair str_int) (open_c, semi_c) (0, 0)
       (Some ''Fully blocked sequence should not be counted as open or semi-open'')))))))\<rparr>"

definition test_double_threat :: test where
  "test_double_threat =
     \<lparr>fn_name = ''test_double_threat'', fn_call =
     bnd (make_empty_board 8) (\<lambda>b.
     bnd (put_seq_on_board b 0 1 0 1 4 ''b'') (\<lambda>b.
     bnd (put_seq_on_board b 1 1 0 1 4 ''b'') (\<lambda>b.
     bnd (score b) (\<lambda>s.
     assert_true (s \<ge> 1000)
       (Some (''Double threat should have high score, got '' @ str_int s))))))\<rparr>"

definition test_fork_attack :: test where
  "test_fork_attack =
     \<lparr>fn_name = ''test_fork_attack'', fn_call =
     bnd (make_empty_board 8) (\<lambda>b.
     bnd (put_seq_on_board b 4 2 0 1 3 ''b'') (\<lambda>b.
     bnd (put_seq_on_board b 2 4 1 0 3 ''b'') (\<lambda>b.
     bnd (detect_rows b ''b'' 3) (\<lambda>(open_c, semi_c).
     assert_true (open_c + semi_c \<ge> 2) (Some ''Fork should create multiple threats'')))))\<rparr>"

definition fill_all_but_two :: "board \<Rightarrow> exn + board" where
  "fill_all_but_two b =
     for_each (py_range 8) (\<lambda>i b.
       for_each (py_range 8) (\<lambda>j b.
         if \<not> ((i = 4 \<and> j = 4) \<or> (i = 4 \<and> j = 5))
         then setcell b i j (if (i + j) mod 2 = 0 then ''b'' else ''w'')
         else Inr b) b) b"

definition test_near_full_board :: test where
  "test_near_full_board =
     \<lparr>fn_name = ''test_near_full_board'', fn_call =
     bnd (make_empty_board 8) (\<lambda>b.
     bnd (fill_all_but_two b) (\<lambda>b.
     bnd (is_win b) (\<lambda>w.
     bnd (assert_equal str_str w ''Continue playing'' None) (\<lambda>u.
     bnd_board (search_max b) (\<lambda>(y, x) b.
     assert_true ((y, x) \<in> set [(Some 4, Some 4), (Some 4, Some 5)])
       (Some (''Should suggest one of two empty cells, got (''
              @ repr_opt_int y @ '','' @ repr_opt_int x @ '')'')))))))\<rparr>"

subsection \<open>The two lists of main, and main\<close>

text \<open>
  The lists as \<open>main\<close> writes them, \<open>main\<close> itself, and the run of the file as a
  script: the module sets both counters to zero and calls \<open>main\<close> once.
\<close>

definition basic_tests :: "test list" where
  "basic_tests =
     [test_make_and_is_empty,
      test_put_seq_and_detects_vertical_open,
      test_is_bounded_open_semi_closed,
      test_detect_row_horizontal_and_diagonal,
      test_score_and_win_conditions,
      test_search_max_picks_winning_move_and_none_on_empty,
      test_print_board_output,
      test_continue_playing_and_draw]"

definition edge_tests :: "test list" where
  "edge_tests =
     [test_sequence_at_top_left_corner,
      test_sequence_at_bottom_right_corner,
      test_sequence_at_all_four_corners,
      test_sequence_along_top_edge,
      test_sequence_along_left_edge,
      test_sequence_along_bottom_edge,
      test_sequence_along_right_edge,
      test_diagonal_from_top_edge_to_right_edge,
      test_diagonal_from_left_edge_to_bottom_edge,
      test_single_stone_no_sequence,
      test_two_stones_not_adjacent,
      test_exactly_five_in_a_row,
      test_more_than_five_in_a_row,
      test_overlapping_sequences,
      test_parallel_sequences,
      test_blocked_sequence_both_ends,
      test_blocked_sequence_one_end,
      test_blocked_by_same_color,
      test_diagonal_negative_slope,
      test_all_four_directions,
      test_win_with_five_horizontal,
      test_win_with_five_vertical,
      test_win_with_five_diagonal_positive,
      test_win_with_five_diagonal_negative,
      test_no_win_with_four,
      test_draw_on_full_board_no_winner,
      test_continue_playing_on_empty_board,
      test_continue_playing_with_moves_but_no_five,
      test_both_players_have_five_simultaneously,
      test_score_empty_board,
      test_score_single_stone,
      test_score_black_winning,
      test_score_white_winning,
      test_score_black_open_four,
      test_score_white_open_four,
      test_score_blocking_more_valuable,
      test_score_multiple_open_threes,
      test_score_semi_open_less_than_open,
      test_search_max_empty_board,
      test_search_max_one_empty_cell,
      test_search_max_blocks_opponent_win,
      test_search_max_takes_winning_move,
      test_search_max_prefers_winning_over_blocking,
      test_search_max_full_board,
      test_detect_row_entire_row_filled,
      test_detect_row_alternating_colors,
      test_detect_row_with_gaps,
      test_detect_row_starts_mid_sequence,
      test_is_bounded_length_one,
      test_is_bounded_at_exact_board_boundary,
      test_is_bounded_surrounded_by_empty,
      test_is_bounded_surrounded_by_opponent,
      test_put_seq_length_zero,
      test_put_seq_length_one,
      test_put_seq_overwrites_existing,
      test_complex_mid_game_position,
      test_capture_pattern,
      test_double_threat,
      test_fork_attack,
      test_near_full_board]"

definition main :: "stream \<Rightarrow> globals \<Rightarrow> (exn + unit) \<times> globals" where
  "main out g = main_on out basic_tests edge_tests g"

definition run_all_tests :: "stream \<Rightarrow> (exn + unit) \<times> globals" where
  "run_all_tests out = main out initial_globals"

section \<open>Positions and outcomes the properties speak of\<close>

text \<open>
  Boards of the tests, written out cell by cell: the empty 8 by 8 board; four black stones
  at row 3, columns 2 to 5 (\<^verbatim>\<open>test_blocked_by_same_color\<close>); five black stones at row 3,
  columns 1 to 5 (\<^verbatim>\<open>test_win_with_five_horizontal\<close>); three white stones in column 5,
  rows 1 to 3 (\<^verbatim>\<open>test_is_bounded_open_semi_closed\<close>); and the two boards of
  \<^verbatim>\<open>test_score_semi_open_less_than_open\<close>, three black stones at row 3, columns 2 to
  4, alone and with a white stone at column 1; four black stones at row 3, columns 1 to 4
  (\<^verbatim>\<open>test_search_max_takes_winning_move\<close>); and three black stones on the diagonal from
  (0, 5) to (2, 7) (\<^verbatim>\<open>test_diagonal_from_top_edge_to_right_edge\<close>).
\<close>

definition empty_row :: "string list" where
  "empty_row = ['' '', '' '', '' '', '' '', '' '', '' '', '' '', '' '']"

definition empty_board_8 :: board where
  "empty_board_8 =
     [empty_row, empty_row, empty_row, empty_row, empty_row, empty_row, empty_row, empty_row]"

definition four_black_in_row :: board where
  "four_black_in_row =
     [empty_row, empty_row, empty_row,
      ['' '', '' '', ''b'', ''b'', ''b'', ''b'', '' '', '' ''],
      empty_row, empty_row, empty_row, empty_row]"

definition five_black_in_row :: board where
  "five_black_in_row =
     [empty_row, empty_row, empty_row,
      ['' '', ''b'', ''b'', ''b'', ''b'', ''b'', '' '', '' ''],
      empty_row, empty_row, empty_row, empty_row]"

definition three_white_in_column :: board where
  "three_white_in_column =
     [empty_row,
      ['' '', '' '', '' '', '' '', '' '', ''w'', '' '', '' ''],
      ['' '', '' '', '' '', '' '', '' '', ''w'', '' '', '' ''],
      ['' '', '' '', '' '', '' '', '' '', ''w'', '' '', '' ''],
      empty_row, empty_row, empty_row, empty_row]"

definition three_black_open :: board where
  "three_black_open =
     [empty_row, empty_row, empty_row,
      ['' '', '' '', ''b'', ''b'', ''b'', '' '', '' '', '' ''],
      empty_row, empty_row, empty_row, empty_row]"

definition three_black_semiopen :: board where
  "three_black_semiopen =
     [empty_row, empty_row, empty_row,
      ['' '', ''w'', ''b'', ''b'', ''b'', '' '', '' '', '' ''],
      empty_row, empty_row, empty_row, empty_row]"


definition diagonal_to_right_edge :: board where
  "diagonal_to_right_edge =
     [['' '', '' '', '' '', '' '', '' '', ''b'', '' '', '' ''],
      ['' '', '' '', '' '', '' '', '' '', '' '', ''b'', '' ''],
      ['' '', '' '', '' '', '' '', '' '', '' '', '' '', ''b''],
      empty_row, empty_row, empty_row, empty_row, empty_row]"

text \<open>One score exceeds another when both calls return and the first value is the larger.\<close>

definition exceeds :: "exn + int \<Rightarrow> exn + int \<Rightarrow> bool" where
  "exceeds r1 r2 =
     (case r1 of
        Inl e \<Rightarrow> False
      | Inr s1 \<Rightarrow> (case r2 of Inl e \<Rightarrow> False | Inr s2 \<Rightarrow> s1 > s2))"

text \<open>
  Three test functions that are not in the file: one that calls \<^verbatim>\<open>sys.exit(0)\<close>, one
  whose assertion fails, and one that passes.
\<close>

definition exiting_test :: test where
  "exiting_test = \<lparr>fn_name = ''test_exits'', fn_call = Inl (SystemExit 0)\<rparr>"

definition failing_test :: test where
  "failing_test =
     \<lparr>fn_name = ''test_fails'', fn_call = Inl (AssertionError ''Assertion failed'')\<rparr>"

definition passing_test :: test where
  "passing_test = \<lparr>fn_name = ''test_passes'', fn_call = Inr ()\<rparr>"

section \<open>Every function of gomoku.py raises\<close>

text \<open>
  Claim C1. Each of the ten public functions of \<^verbatim>\<open>gomoku.py\<close> raises
  \<open>NotImplementedError\<close> on every call, whatever its arguments: the file is a placeholder
  and implements nothing of the engine.
\<close>

theorem gomoku_placeholder_raises:
  "make_empty_board sz = Inl (NotImplementedError ''Replace this file with your gomoku.py'')
   \<and> put_seq_on_board b y x d_y d_x len col =
       Inl (NotImplementedError ''Replace this file with your gomoku.py'')
   \<and> is_empty b = Inl (NotImplementedError ''Replace this file with your gomoku.py'')
   \<and> is_bounded b y x len d_y d_x =
       Inl (NotImplementedError ''Replace this file with your gomoku.py'')
   \<and> detect_row b col y x len d_y d_x =
       Inl (NotImplementedError ''Replace this file with your gomoku.py'')
   \<and> detect_rows b col len = Inl (NotImplementedError ''Replace this file with your gomoku.py'')
   \<and> score b = Inl (NotImplementedError ''Replace this file with your gomoku.py'')
   \<and> fst (search_max b) = Inl (NotImplementedError ''Replace this file with your gomoku.py'')
   \<and> is_win b = Inl (NotImplementedError ''Replace this file with your gomoku.py'')
   \<and> print_board b = Inl (NotImplementedError ''Replace this file with your gomoku.py'')"
  by (simp add: make_empty_board_def put_seq_on_board_def is_empty_def is_bounded_def
      detect_row_def detect_rows_def score_def search_max_def is_win_def print_board_def)


section \<open>The engine at the inputs of the tests\<close>

text \<open>
  Claim C2, at a failing input. On the board with four black stones in a row,
  \<^verbatim>\<open>test_blocked_by_same_color\<close> expects the tally \<open>(0, 0)\<close> from \<open>detect_rows\<close> at
  length 3, a run of four not being counted at length 3. Neither \<open>detect_rows\<close> nor
  \<open>detect_row\<close> on that row returns a tally: both raise \<open>NotImplementedError\<close>.
\<close>

theorem detect_rows_raises_on_run_of_four:
  "detect_rows four_black_in_row ''b'' 3 = Inl (NotImplementedError ''Replace this file with your gomoku.py'')
   \<and> detect_rows four_black_in_row ''b'' 3 \<noteq> Inr (0, 0)
   \<and> detect_row four_black_in_row ''b'' 3 0 3 0 1 = Inl (NotImplementedError ''Replace this file with your gomoku.py'')"
  by (simp add: detect_rows_def detect_row_def)

text \<open>
  Claim C3, at a failing input. On the board with five black stones in a row,
  \<^verbatim>\<open>test_win_with_five_horizontal\<close> expects the verdict \<^verbatim>\<open>'Black won'\<close>. \<open>is_win\<close>
  returns no verdict: it raises \<open>NotImplementedError\<close>.
\<close>

theorem is_win_raises_on_five_black:
  "is_win five_black_in_row = Inl (NotImplementedError ''Replace this file with your gomoku.py'')
   \<and> is_win five_black_in_row \<noteq> Inr ''Black won''"
  by (simp add: is_win_def)

text \<open>
  Claim C4, at failing inputs. \<^verbatim>\<open>test_score_empty_board\<close> expects 0 on the empty board
  and \<^verbatim>\<open>test_score_black_winning\<close> expects 100000 on the board with five black stones in
  a row. \<open>score\<close> returns no score on either: it raises \<open>NotImplementedError\<close>.
\<close>

theorem score_raises_on_empty_and_won_board:
  "score empty_board_8 = Inl (NotImplementedError ''Replace this file with your gomoku.py'')
   \<and> score empty_board_8 \<noteq> Inr 0
   \<and> score five_black_in_row = Inl (NotImplementedError ''Replace this file with your gomoku.py'')
   \<and> score five_black_in_row \<noteq> Inr 100000"
  by (simp add: score_def)

text \<open>
  Claim C5, at a failing input. The run of three white stones in column 5 ends at row 3
  and both its flanks are empty cells of the board, so
  \<^verbatim>\<open>test_is_bounded_open_semi_closed\<close> expects \<^verbatim>\<open>'OPEN'\<close>. \<open>is_bounded\<close> returns no
  classification: it raises \<open>NotImplementedError\<close>.
\<close>

theorem is_bounded_raises_on_open_run:
  "is_bounded three_white_in_column 3 5 3 1 0 = Inl (NotImplementedError ''Replace this file with your gomoku.py'')
   \<and> is_bounded three_white_in_column 3 5 3 1 0 \<noteq> Inr ''OPEN''"
  by (simp add: is_bounded_def)

text \<open>
  Claim C6, at a failing input. On the empty board \<^verbatim>\<open>test_search_max_empty_board\<close>
  expects \<^verbatim>\<open>(None, None)\<close>. \<open>search_max\<close> returns nothing: it raises
  \<open>NotImplementedError\<close>.
\<close>

theorem search_max_raises_on_empty_board:
  "fst (search_max empty_board_8) = Inl (NotImplementedError ''Replace this file with your gomoku.py'')
   \<and> fst (search_max empty_board_8) \<noteq> Inr (None, None)"
  by (simp add: search_max_def)


text \<open>
  Claim C8, at a failing input. On the two boards of
  \<^verbatim>\<open>test_score_semi_open_less_than_open\<close> the test expects the score of the board with
  the open run of three to exceed the score of the board where the run is semi-open.
  \<open>score\<close> raises \<open>NotImplementedError\<close> on both, and the first does not exceed the
  second.
\<close>

theorem score_raises_on_open_and_semiopen:
  "score three_black_open = Inl (NotImplementedError ''Replace this file with your gomoku.py'')
   \<and> score three_black_semiopen = Inl (NotImplementedError ''Replace this file with your gomoku.py'')
   \<and> \<not> exceeds (score three_black_open) (score three_black_semiopen)"
  by (simp add: exceeds_def score_def)

text \<open>
  Claim C9, at failing inputs. Every coordinate below is on the 8 by 8 board, every
  direction is one of the four and every length is positive; the run on the diagonal ends
  at the right edge, so one of its flanks is off the board. Each of the six core functions
  raises \<open>NotImplementedError\<close> instead of returning a value.
\<close>

theorem core_functions_raise_on_valid_inputs:
  "is_bounded diagonal_to_right_edge 2 7 3 1 1 = Inl (NotImplementedError ''Replace this file with your gomoku.py'')
   \<and> detect_row three_black_open ''b'' 3 0 3 0 1 = Inl (NotImplementedError ''Replace this file with your gomoku.py'')
   \<and> detect_rows three_black_open ''b'' 3 = Inl (NotImplementedError ''Replace this file with your gomoku.py'')
   \<and> score three_black_open = Inl (NotImplementedError ''Replace this file with your gomoku.py'')
   \<and> fst (search_max three_black_open) = Inl (NotImplementedError ''Replace this file with your gomoku.py'')
   \<and> is_win three_black_open = Inl (NotImplementedError ''Replace this file with your gomoku.py'')"
  by (simp add: is_bounded_def detect_row_def detect_rows_def score_def search_max_def
      is_win_def)

section \<open>The master test runner\<close>

subsection \<open>On a standard output that accepts every line\<close>

lemma py_print_accepted:
  "\<forall>l. out l = None \<Longrightarrow> py_print out l g = (Inr (), g\<lparr>printed := printed g @ [l]\<rparr>)"
  by (simp add: py_print_def)

lemma prints_accepted:
  "\<forall>l. out l = None \<Longrightarrow> prints out ls g = (Inr (), g\<lparr>printed := printed g @ ls\<rparr>)"
  by (induction ls arbitrary: g) (simp_all add: py_print_accepted)

text \<open>A test whose exception is caught is counted and reported, and the loop goes on.\<close>

lemma run_test_caught:
  assumes "\<forall>l. out l = None" and "caught t"
  shows "run_test out t g =
     (Inr (passes t),
      g\<lparr>failures := failures g + (if passes t then 0 else 1),
        total_tests := total_tests g + 1,
        printed := printed g @ verdict t\<rparr>)"
  using assms(2)
  by (cases "fn_call t")
     (simp_all add: run_test_def except_Exception_def and_then_def py_print_accepted [OF assms(1)]
        caught_def passes_def verdict_def Let_def)

lemma run_tests_caught:
  assumes "\<forall>l. out l = None"
  shows "list_all caught ts \<Longrightarrow> run_tests out ts g =
     (Inr (),
      g\<lparr>failures := failures g + int (length (filter (\<lambda>t. \<not> passes t) ts)),
        total_tests := total_tests g + int (length ts),
        printed := printed g @ concat (map verdict ts)\<rparr>)"
proof (induction ts arbitrary: g)
  case Nil
  show ?case by simp
next
  case (Cons t ts)
  from Cons.prems have c: "caught t" and cs: "list_all caught ts" by simp_all
  show ?case
    by (simp add: run_test_caught [OF assms c] Cons.IH [OF cs])
qed

text \<open>
  The pass rate of counters that \<open>main\<close> reaches from zero is a quotient between 0 and 1:
  its computation does not raise.
\<close>

lemma quotient_limit_gt_1: "1 < quotient_limit"
proof -
  have "(2::int) ^ 970 * 2 \<le> 2 ^ 970 * 2 ^ 54" by simp
  then have "(2::int) ^ 971 \<le> 2 ^ 1024" by (simp add: power_add [symmetric])
  moreover have "(2::int) ^ 970 * 2 = 2 ^ 971" by simp
  moreover have "(1::int) < 2 ^ 970" by simp
  ultimately show ?thesis unfolding quotient_limit_def by linarith
qed

lemma pass_rate_check_in_range:
  assumes "0 \<le> p" and "p \<le> n"
  shows "pass_rate_check p n = Inr ()"
proof (cases "n > 0")
  case False
  then show ?thesis by (simp add: pass_rate_check_def)
next
  case True
  have "1 * n < quotient_limit * n"
    using quotient_limit_gt_1 True by (intro mult_strict_right_mono) simp_all
  with assms have "\<bar>p\<bar> < quotient_limit * n" by simp
  then show ?thesis by (simp add: pass_rate_check_def)
qed

lemma passed_count:
  "int (length ts) - int (length (filter (\<lambda>t. \<not> P t) ts)) = int (length (filter P ts))"
  using sum_length_filter_compl [of P ts] by linarith

lemma no_failure_iff: "length (filter (\<lambda>t. \<not> passes t) ts) = 0 \<longleftrightarrow> list_all passes ts"
  by (induction ts) simp_all

subsection \<open>What is not caught\<close>

text \<open>
  An exception that does not derive from \<^verbatim>\<open>Exception\<close> is not caught: it leaves
  \<open>run_test\<close>, after the test was counted, and with it the loop.
\<close>

lemma run_test_SystemExit_propagates:
  "fn_call t = Inl (SystemExit c) \<Longrightarrow>
     run_test out t g = (Inl (SystemExit c), g\<lparr>total_tests := total_tests g + 1\<rparr>)"
  by (simp add: run_test_def except_Exception_def)

lemma run_tests_SystemExit_stops:
  "fn_call t = Inl (SystemExit c) \<Longrightarrow> fst (run_tests out (t # ts) g) = Inl (SystemExit c)"
  by (simp add: run_test_SystemExit_propagates)

text \<open>
  When standard output refuses the PASS line of a test that passed, with an exception that
  derives from \<^verbatim>\<open>Exception\<close>, the handler counts the test as a failure; when it
  refuses the FAIL line as well, that exception leaves \<open>run_test\<close>.
\<close>

lemma run_test_pass_line_refused:
  assumes "fn_call t = Inr ()"
    and "out (pass_line (fn_name t)) = Some e"
    and "is_Exception e"
    and "out (fail_line (fn_name t)) = Some e'"
  shows "run_test out t g =
     (Inl e', g\<lparr>total_tests := total_tests g + 1, failures := failures g + 1\<rparr>)"
  using assms
  by (simp add: run_test_def except_Exception_def and_then_def py_print_def Let_def)

text \<open>
  When standard output accepts the first four lines of the banner and refuses the heading
  of the basic tests, \<open>main\<close> ends there, before any test is run.
\<close>

lemma main_on_heading_refused:
  assumes "out rule_line = None"
    and "out title_line = None"
    and "out blank_line = None"
    and "out basic_heading = Some e"
  shows "main_on out basic edge g =
     (Inl e, g\<lparr>printed := printed g @ [rule_line, title_line, rule_line, blank_line]\<rparr>)"
  using assms
  by (simp add: main_on_def and_then_def py_print_def)

subsection \<open>The run of main\<close>

text \<open>
  Against claim C10 as stated. With a test that calls \<^verbatim>\<open>sys.exit(0)\<close> first in the
  list, followed by a test that fails and a test that passes, \<open>run_test\<close> does not catch
  the \<open>SystemExit\<close>: \<open>main\<close> ends after one of the three tests, with exit status 0,
  though not every test passed.
\<close>

theorem main_on_exiting_test_ends_run:
  "fst (main_on accepting [exiting_test, failing_test] [passing_test] initial_globals)
     = Inl (SystemExit 0)
   \<and> total_tests
       (snd (main_on accepting [exiting_test, failing_test] [passing_test] initial_globals))
     = 1
   \<and> \<not> list_all passes [exiting_test, failing_test, passing_test]"
  by (simp add: main_on_def and_then_def py_print_def accepting_def initial_globals_def
      run_test_def except_Exception_def exiting_test_def failing_test_def passing_test_def
      passes_def Let_def)

text \<open>
  Claim C10, amended. When standard output accepts every line and the tests of the two
  lists raise only exceptions that derive from \<^verbatim>\<open>Exception\<close>, \<open>main\<close>, started with
  both counters at zero, runs every test of both lists in order, whatever the earlier ones
  did: it counts each one, counts each failing one as a failure and prints the verdict of
  each. It then exits with status 0 if every test passed and with status 1 otherwise.
\<close>

theorem main_runs_every_test:
  assumes out: "\<forall>l. out l = None"
    and tests: "list_all caught (basic @ edge)"
  shows "main_on out basic edge initial_globals =
     (Inl (SystemExit (if list_all passes (basic @ edge) then 0 else 1)),
      \<lparr>failures = int (length (filter (\<lambda>t. \<not> passes t) (basic @ edge))),
       total_tests = int (length (basic @ edge)),
       printed =
         [rule_line, title_line, rule_line, blank_line, basic_heading, dash_line]
         @ concat (map verdict basic)
         @ [blank_line, edge_heading, dash_line]
         @ concat (map verdict edge)
         @ [blank_line, rule_line]
         @ (if list_all passes (basic @ edge)
            then [success_line (int (length (basic @ edge)))]
            else [Results (int (length (filter passes (basic @ edge))))
                          (int (length (basic @ edge))),
                  failed_line (int (length (filter (\<lambda>t. \<not> passes t) (basic @ edge))))])
         @ [rule_line]\<rparr>)"
proof -
  let ?ts = "basic @ edge"
  let ?n = "int (length ?ts)"
  let ?f = "int (length (filter (\<lambda>t. \<not> passes t) ?ts))"
  let ?p = "int (length (filter passes ?ts))"
  let ?opening = "[rule_line, title_line, rule_line, blank_line, basic_heading, dash_line]"
  let ?mid = "[blank_line, edge_heading, dash_line]"
  let ?l2 = "?opening @ concat (map verdict basic)"
  let ?l4 = "?l2 @ ?mid @ concat (map verdict edge)"
  let ?l5 = "?l4 @ [blank_line, rule_line]"
  let ?g1 = "\<lparr>failures = 0, total_tests = 0, printed = ?opening\<rparr>"
  let ?g2 = "\<lparr>failures = int (length (filter (\<lambda>t. \<not> passes t) basic)),
              total_tests = int (length basic), printed = ?l2\<rparr>"
  let ?g3 = "\<lparr>failures = int (length (filter (\<lambda>t. \<not> passes t) basic)),
              total_tests = int (length basic), printed = ?l2 @ ?mid\<rparr>"
  let ?g4 = "\<lparr>failures = ?f, total_tests = ?n, printed = ?l4\<rparr>"
  let ?g5 = "\<lparr>failures = ?f, total_tests = ?n, printed = ?l5\<rparr>"
  from tests have b: "list_all caught basic" and e: "list_all caught edge" by simp_all
  have s1: "prints out ?opening initial_globals = (Inr (), ?g1)"
    by (simp add: prints_accepted [OF out] initial_globals_def del: prints.simps)
  have s2: "run_tests out basic ?g1 = (Inr (), ?g2)"
    by (simp add: run_tests_caught [OF out b])
  have s3: "prints out ?mid ?g2 = (Inr (), ?g3)"
    by (simp add: prints_accepted [OF out] del: prints.simps)
  have s4: "run_tests out edge ?g3 = (Inr (), ?g4)"
    by (simp add: run_tests_caught [OF out e])
  have s5: "prints out [blank_line, rule_line] ?g4 = (Inr (), ?g5)"
    by (simp add: prints_accepted [OF out] del: prints.simps)
  have passed: "?n - ?f = ?p"
    by (rule passed_count)
  have "length (filter passes ?ts) \<le> length ?ts"
    by (rule length_filter_le)
  then have "?p \<le> ?n"
    by (simp only: of_nat_le_iff)
  then have s6: "pass_rate_check ?p ?n = Inr ()"
    by (intro pass_rate_check_in_range) simp_all
  have zero: "?f = 0 \<longleftrightarrow> list_all passes ?ts"
    by (simp only: of_nat_eq_0_iff no_failure_iff)
  have s7: "(if list_all passes ?ts then py_print out (success_line ?n) ?g5
             else prints out [Results ?p ?n, failed_line ?f] ?g5) =
            (Inr (), \<lparr>failures = ?f, total_tests = ?n,
               printed = ?l5 @ (if list_all passes ?ts then [success_line ?n]
                                else [Results ?p ?n, failed_line ?f])\<rparr>)"
    by (cases "list_all passes ?ts")
       (simp_all only: if_True if_False py_print_accepted [OF out] prints_accepted [OF out]
          globals.simps)
  have "main_on out basic edge initial_globals =
      and_then (if list_all passes ?ts then py_print out (success_line ?n) ?g5
                else prints out [Results ?p ?n, failed_line ?f] ?g5)
        (\<lambda>u g.
      and_then (py_print out rule_line g) (\<lambda>u g.
      (Inl (SystemExit (if failures g = 0 then 0 else 1)), g)))"
    unfolding main_on_def s1 and_then_def prod.case sum.case s2 s3 s4 s5 Let_def
      globals.simps passed s6 zero
    by (rule refl)
  also have "\<dots> = (Inl (SystemExit (if list_all passes ?ts then 0 else 1)),
      \<lparr>failures = ?f, total_tests = ?n,
       printed = (?l5 @ (if list_all passes ?ts then [success_line ?n]
                        else [Results ?p ?n, failed_line ?f])) @ [rule_line]\<rparr>)"
    by (subst s7)
       (simp only: and_then_def prod.case sum.case py_print_accepted [OF out] globals.simps zero)
  finally show ?thesis
    by (simp only: append_assoc)
qed

text \<open>
  The run of the file as it stands: each of the 68 tests first calls
  \<open>make_empty_board\<close>, which raises, so each test fails with \<open>NotImplementedError\<close>.
\<close>

lemmas test_defs = test_make_and_is_empty_def test_put_seq_and_detects_vertical_open_def
  test_is_bounded_open_semi_closed_def test_detect_row_horizontal_and_diagonal_def
  test_score_and_win_conditions_def test_search_max_picks_winning_move_and_none_on_empty_def
  test_print_board_output_def test_continue_playing_and_draw_def
  test_sequence_at_top_left_corner_def test_sequence_at_bottom_right_corner_def
  test_sequence_at_all_four_corners_def test_sequence_along_top_edge_def
  test_sequence_along_left_edge_def test_sequence_along_bottom_edge_def
  test_sequence_along_right_edge_def test_diagonal_from_top_edge_to_right_edge_def
  test_diagonal_from_left_edge_to_bottom_edge_def test_single_stone_no_sequence_def
  test_two_stones_not_adjacent_def test_exactly_five_in_a_row_def
  test_more_than_five_in_a_row_def test_overlapping_sequences_def test_parallel_sequences_def
  test_blocked_sequence_both_ends_def test_blocked_sequence_one_end_def
  test_blocked_by_same_color_def test_diagonal_negative_slope_def test_all_four_directions_def
  test_win_with_five_horizontal_def test_win_with_five_vertical_def
  test_win_with_five_diagonal_positive_def test_win_with_five_diagonal_negative_def
  test_no_win_with_four_def test_draw_on_full_board_no_winner_def
  test_continue_playing_on_empty_board_def test_continue_playing_with_moves_but_no_five_def
  test_both_players_have_five_simultaneously_def test_score_empty_board_def
  test_score_single_stone_def test_score_black_winning_def test_score_white_winning_def
  test_score_black_open_four_def test_score_white_open_four_def
  test_score_blocking_more_valuable_def test_score_multiple_open_threes_def
  test_score_semi_open_less_than_open_def test_search_max_empty_board_def
  test_search_max_one_empty_cell_def test_search_max_blocks_opponent_win_def
  test_search_max_takes_winning_move_def test_search_max_prefers_winning_over_blocking_def
  test_search_max_full_board_def test_detect_row_entire_row_filled_def
  test_detect_row_alternating_colors_def test_detect_row_with_gaps_def
  test_detect_row_starts_mid_sequence_def test_is_bounded_length_one_def
  test_is_bounded_at_exact_board_boundary_def test_is_bounded_surrounded_by_empty_def
  test_is_bounded_surrounded_by_opponent_def test_put_seq_length_zero_def
  test_put_seq_length_one_def test_put_seq_overwrites_existing_def
  test_complex_mid_game_position_def test_capture_pattern_def test_double_threat_def
  test_fork_attack_def test_near_full_board_def

lemma bnd_Inl: "bnd (Inl e) f = Inl e"
  by (simp add: bnd_def)

lemma every_test_raises:
  "list_all (\<lambda>t. fn_call t = Inl (NotImplementedError ''Replace this file with your gomoku.py''))
     (basic_tests @ edge_tests)"
  unfolding basic_tests_def edge_tests_def test_defs make_empty_board_def
  by (simp add: bnd_Inl)

lemma raising_tests:
  assumes "list_all (\<lambda>t. fn_call t = Inl (NotImplementedError m)) ts"
  shows "list_all caught ts"
    and "filter (\<lambda>t. \<not> passes t) ts = ts"
    and "filter passes ts = []"
    and "map verdict ts = map (\<lambda>t. [fail_line (fn_name t), reason_line (NotImplementedError m)]) ts"
    and "list_all passes ts \<longleftrightarrow> ts = []"
  using assms
  by (induction ts) (simp_all add: caught_def passes_def verdict_def)

lemma number_of_tests: "length (basic_tests @ edge_tests) = 68"
  by (simp add: basic_tests_def edge_tests_def)

text \<open>
  Witness for claim C10: the run of the file as a script, on a standard output that
  accepts every line. The hypotheses hold of it, all 68 tests are run and fail, and the
  exit status is 1.
\<close>

theorem run_all_tests_runs_68_and_exits_1:
  "(\<forall>l. accepting l = None)
   \<and> list_all caught (basic_tests @ edge_tests)
   \<and> run_all_tests accepting =
       (Inl (SystemExit 1),
        \<lparr>failures = 68, total_tests = 68,
         printed =
           [rule_line, title_line, rule_line, blank_line, basic_heading, dash_line]
           @ concat (map (\<lambda>t. [fail_line (fn_name t),
                                reason_line (NotImplementedError
                                              ''Replace this file with your gomoku.py'')])
                       basic_tests)
           @ [blank_line, edge_heading, dash_line]
           @ concat (map (\<lambda>t. [fail_line (fn_name t),
                                reason_line (NotImplementedError
                                              ''Replace this file with your gomoku.py'')])
                       edge_tests)
           @ [blank_line, rule_line]
           @ [Results 0 68, failed_line 68]
           @ [rule_line]\<rparr>)"
proof -
  have acc: "\<forall>l. accepting l = None"
    by (simp add: accepting_def)
  note all = raising_tests [OF every_test_raises]
  from every_test_raises
  have b: "list_all (\<lambda>t. fn_call t = Inl (NotImplementedError
             ''Replace this file with your gomoku.py'')) basic_tests"
    and e: "list_all (\<lambda>t. fn_call t = Inl (NotImplementedError
             ''Replace this file with your gomoku.py'')) edge_tests"
    by simp_all
  have nonempty: "basic_tests @ edge_tests \<noteq> []"
    using number_of_tests by auto
  from main_runs_every_test [OF acc all(1)]
  have "run_all_tests accepting =
       (Inl (SystemExit 1),
        \<lparr>failures = 68, total_tests = 68,
         printed =
           [rule_line, title_line, rule_line, blank_line, basic_heading, dash_line]
           @ concat (map (\<lambda>t. [fail_line (fn_name t),
                                reason_line (NotImplementedError
                                              ''Replace this file with your gomoku.py'')])
                       basic_tests)
           @ [blank_line, edge_heading, dash_line]
           @ concat (map (\<lambda>t. [fail_line (fn_name t),
                                reason_line (NotImplementedError
                                              ''Replace this file with your gomoku.py'')])
                       edge_tests)
           @ [blank_line, rule_line]
           @ [Results 0 68, failed_line 68]
           @ [rule_line]\<rparr>)"
    by (simp only: run_all_tests_def main_def all raising_tests(4) [OF b]
        raising_tests(4) [OF e] number_of_tests nonempty
        if_False simp_thms of_nat_numeral list.size of_nat_0)
  with acc all(1) show ?thesis
    by (intro conjI)
qed

end
